theory Spec2Isabelle
  imports Complex_Main "HOL-Library.Log_Nat"
begin

section \<open>Python values used by \<^verbatim>\<open>salary_accounting.py\<close>\<close>

text \<open>
  The three functions of \<^verbatim>\<open>salary_accounting.py\<close> work on dictionaries read from
  JSON. The model fixes their shape by types:

  \<^item> a number (Python \<^verbatim>\<open>int\<close> or \<^verbatim>\<open>float\<close>) is an exact rational. Python integers are
    exact and unbounded; a float operation is taken at its exact value, so the
    rounding of IEEE doubles, their infinities and NaN, and the \<^verbatim>\<open>OverflowError\<close> of a
    result beyond their range are outside the model;
  \<^item> an employee dictionary is a record whose fields are optional: \<open>None\<close> is an
    absent key. The key \<^verbatim>\<open>'monthly_salary'\<close> of the input dictionary is a field as
    well, because the calculator writes it;
  \<^item> a dictionary keyed by subsidiary name is an association list in insertion
    order; a Python dictionary has no repeated key, which is the hypothesis
    \<open>distinct (map fst d)\<close> of the theorems below;
  \<^item> what Python raises is a value of type \<open>error\<close>, returned on the left of a sum.
\<close>

datatype error = KeyError string | ZeroDivisionError | ValueError | OverflowError

type_synonym number = rat

record raw_employee =
  raw_name :: "string option"
  raw_job :: "string option"
  hourly_rate :: "number option"
  weekly_hours_worked :: "number option"
  contract_hours :: "number option"
  raw_monthly_salary :: "number option"

record salary_entry =
  name :: string
  job :: string
  monthly_salary :: int

record salary_statistics =
  average_salary :: number
  highest_salary :: int
  lowest_salary :: int

record subsidiary_statistics = salary_statistics +
  employee_salary :: "salary_entry list"

type_synonym roster = "(string \<times> raw_employee list) list"

type_synonym salary_map = "(string \<times> salary_entry list) list"

type_synonym statistics_map = "(string \<times> subsidiary_statistics) list"

text \<open>\<^verbatim>\<open>d.get(key, default)\<close> on one field of a dictionary.\<close>

definition dict_get :: "'v option \<Rightarrow> 'v \<Rightarrow> 'v" where
  "dict_get field fallback = (case field of None \<Rightarrow> fallback | Some v \<Rightarrow> v)"

text \<open>\<^verbatim>\<open>d[key]\<close> on one field of a dictionary: an absent key raises \<^verbatim>\<open>KeyError\<close>.\<close>

definition dict_item :: "string \<Rightarrow> 'v option \<Rightarrow> error + 'v" where
  "dict_item key field = (case field of None \<Rightarrow> Inl (KeyError key) | Some v \<Rightarrow> Inr v)"

text \<open>\<^verbatim>\<open>d[key]\<close> on a dictionary keyed by subsidiary name.\<close>

fun dict_lookup :: "(string \<times> 'v) list \<Rightarrow> string \<Rightarrow> error + 'v" where
  "dict_lookup [] key = Inl (KeyError key)"
| "dict_lookup ((k, v) # rest) key = (if k = key then Inr v else dict_lookup rest key)"

text \<open>
  \<^verbatim>\<open>d[key] = value\<close>: an existing key keeps its place and takes the new value, a new
  key goes to the end.
\<close>

fun dict_setitem :: "(string \<times> 'v) list \<Rightarrow> string \<Rightarrow> 'v \<Rightarrow> (string \<times> 'v) list" where
  "dict_setitem [] key value = [(key, value)]"
| "dict_setitem ((k, v) # rest) key value =
     (if k = key then (k, value) # rest else (k, v) # dict_setitem rest key value)"

text \<open>\<^verbatim>\<open>int(x)\<close> of a number: the fractional part is dropped, towards zero.\<close>

definition py_int :: "number \<Rightarrow> int" where
  "py_int x = (if 0 \<le> x then \<lfloor>x\<rfloor> else - \<lfloor>- x\<rfloor>)"

text \<open>\<^verbatim>\<open>sum(xs)\<close>, \<^verbatim>\<open>max(xs)\<close>, \<^verbatim>\<open>min(xs)\<close> and \<^verbatim>\<open>a / b\<close> on integers.\<close>

definition py_sum :: "int list \<Rightarrow> int" where
  "py_sum xs = foldl (+) 0 xs"

definition py_max :: "int list \<Rightarrow> error + int" where
  "py_max xs =
     (case xs of
        [] \<Rightarrow> Inl ValueError
      | x # rest \<Rightarrow> Inr (foldl (\<lambda>best item. if item > best then item else best) x rest))"

definition py_min :: "int list \<Rightarrow> error + int" where
  "py_min xs =
     (case xs of
        [] \<Rightarrow> Inl ValueError
      | x # rest \<Rightarrow> Inr (foldl (\<lambda>best item. if item < best then item else best) x rest))"

definition py_truediv :: "int \<Rightarrow> int \<Rightarrow> error + number" where
  "py_truediv a b = (if b = 0 then Inl ZeroDivisionError else Inr (of_int a / of_int b))"

section \<open>\<^verbatim>\<open>calculate_monthly_salaries\<close>\<close>

text \<open>
  Lines 38 to 49: the wage attributes are read with default 0 and the monthly
  salary is computed, with the overtime factor \<^verbatim>\<open>1.5\<close>.
\<close>

definition computed_salary :: "raw_employee \<Rightarrow> number" where
  "computed_salary employee_details =
     (let rate = dict_get (hourly_rate employee_details) 0;
          worked = dict_get (weekly_hours_worked employee_details) 0;
          contract = dict_get (contract_hours employee_details) 0
      in if worked \<le> contract then worked * rate * 4
         else
           (let overtime_worked = worked - contract;
                overtime_salary = overtime_worked * rate * (3 / 2);
                contract_salary = contract * rate
            in (contract_salary + overtime_salary) * 4))"

text \<open>
  Lines 52 to 57, the rest of the loop body: the input dictionary is updated in
  place with the computed salary, then the output dictionary is built from the keys
  \<^verbatim>\<open>'name'\<close>, \<^verbatim>\<open>'job'\<close> and \<^verbatim>\<open>'monthly_salary'\<close>, in this order. The second component is
  the input dictionary after the step.
\<close>

definition employee_step :: "raw_employee \<Rightarrow> (error + salary_entry) \<times> raw_employee" where
  "employee_step employee_details =
     (let updated = employee_details\<lparr>raw_monthly_salary := Some (computed_salary employee_details)\<rparr>
      in ((case dict_item ''name'' (raw_name updated) of
             Inl e \<Rightarrow> Inl e
           | Inr n \<Rightarrow>
             (case dict_item ''job'' (raw_job updated) of
                Inl e \<Rightarrow> Inl e
              | Inr j \<Rightarrow>
                (case dict_item ''monthly_salary'' (raw_monthly_salary updated) of
                   Inl e \<Rightarrow> Inl e
                 | Inr m \<Rightarrow> Inr \<lparr>name = n, job = j, monthly_salary = py_int m\<rparr>))),
          updated))"

text \<open>
  The inner loop over \<^verbatim>\<open>personnel_data\<close>, with \<^verbatim>\<open>employee_list\<close> as accumulator. An
  exception leaves the dictionaries after the failing one untouched.
\<close>

fun personnel_loop ::
  "raw_employee list \<Rightarrow> salary_entry list \<Rightarrow> (error + salary_entry list) \<times> raw_employee list" where
  "personnel_loop [] employee_list = (Inr employee_list, [])"
| "personnel_loop (employee_details # rest) employee_list =
     (case employee_step employee_details of
        (Inl e, updated) \<Rightarrow> (Inl e, updated # rest)
      | (Inr entry, updated) \<Rightarrow>
          (case personnel_loop rest (employee_list @ [entry]) of
             (result, rest') \<Rightarrow> (result, updated # rest')))"

text \<open>
  The outer loop over \<^verbatim>\<open>employee_data.items()\<close>, with
  \<^verbatim>\<open>employee_details_per_subsidiary\<close> as accumulator.
\<close>

fun subsidiary_loop :: "roster \<Rightarrow> salary_map \<Rightarrow> (error + salary_map) \<times> roster" where
  "subsidiary_loop [] employee_details_per_subsidiary = (Inr employee_details_per_subsidiary, [])"
| "subsidiary_loop ((subsidiary_names, personnel_data) # rest) employee_details_per_subsidiary =
     (case personnel_loop personnel_data [] of
        (Inl e, updated) \<Rightarrow> (Inl e, (subsidiary_names, updated) # rest)
      | (Inr employee_list, updated) \<Rightarrow>
          (case subsidiary_loop rest
                  (dict_setitem employee_details_per_subsidiary subsidiary_names employee_list) of
             (result, rest') \<Rightarrow> (result, (subsidiary_names, updated) # rest')))"

text \<open>
  The function returns what Python returns or raises, together with the roster as
  the call leaves it.
\<close>

definition calculate_monthly_salaries :: "roster \<Rightarrow> (error + salary_map) \<times> roster" where
  "calculate_monthly_salaries employee_data = subsidiary_loop employee_data []"

section \<open>\<^verbatim>\<open>global_company_statistics\<close> and \<^verbatim>\<open>subsidiary_company_statistics\<close>\<close>

text \<open>
  The dictionary display of lines 95 to 99, which lines 143 to 146 repeat: mean,
  maximum and minimum of a list of salaries.
\<close>

definition salary_summary :: "int list \<Rightarrow> error + salary_statistics" where
  "salary_summary salaries =
     (case py_truediv (py_sum salaries) (int (length salaries)) of
        Inl e \<Rightarrow> Inl e
      | Inr average \<Rightarrow>
        (case py_max salaries of
           Inl e \<Rightarrow> Inl e
         | Inr highest \<Rightarrow>
           (case py_min salaries of
              Inl e \<Rightarrow> Inl e
            | Inr lowest \<Rightarrow>
                Inr \<lparr>average_salary = average, highest_salary = highest,
                     lowest_salary = lowest\<rparr>)))"

text \<open>
  The comprehension of lines 90 to 94: for each subsidiary name, in order, the
  salaries of \<^verbatim>\<open>salary_data[subsidiary]\<close>.
\<close>

fun all_salaries :: "salary_map \<Rightarrow> string list \<Rightarrow> error + int list" where
  "all_salaries salary_data [] = Inr []"
| "all_salaries salary_data (subsidiary # rest) =
     (case dict_lookup salary_data subsidiary of
        Inl e \<Rightarrow> Inl e
      | Inr employees \<Rightarrow>
        (case all_salaries salary_data rest of
           Inl e \<Rightarrow> Inl e
         | Inr others \<Rightarrow> Inr (map monthly_salary employees @ others)))"

definition global_company_statistics :: "salary_map \<Rightarrow> error + salary_statistics" where
  "global_company_statistics salary_data =
     (let subsidiaries = map fst salary_data
      in case all_salaries salary_data subsidiaries of
           Inl e \<Rightarrow> Inl e
         | Inr salaries \<Rightarrow>
             if salaries \<noteq> [] then salary_summary salaries
             else Inr \<lparr>average_salary = 0, highest_salary = 0, lowest_salary = 0\<rparr>)"

text \<open>
  The loop of lines 139 to 148 over the subsidiary names, with
  \<^verbatim>\<open>subsidiary_employee_statistics\<close> as accumulator.
\<close>

fun statistics_loop :: "salary_map \<Rightarrow> string list \<Rightarrow> statistics_map \<Rightarrow> error + statistics_map" where
  "statistics_loop salary_data [] subsidiary_employee_statistics =
     Inr subsidiary_employee_statistics"
| "statistics_loop salary_data (subsidiary # rest) subsidiary_employee_statistics =
     (case dict_lookup salary_data subsidiary of
        Inl e \<Rightarrow> Inl e
      | Inr employees \<Rightarrow>
        (let all_employee_salaries = map monthly_salary employees
         in if all_employee_salaries \<noteq> [] then
              (case salary_summary all_employee_salaries of
                 Inl e \<Rightarrow> Inl e
               | Inr s \<Rightarrow>
                   statistics_loop salary_data rest
                     (dict_setitem subsidiary_employee_statistics subsidiary
                        \<lparr>average_salary = average_salary s,
                         highest_salary = highest_salary s,
                         lowest_salary = lowest_salary s,
                         employee_salary = employees\<rparr>))
            else statistics_loop salary_data rest subsidiary_employee_statistics))"

definition subsidiary_company_statistics :: "salary_map \<Rightarrow> error + statistics_map" where
  "subsidiary_company_statistics salary_data =
     statistics_loop salary_data (map fst salary_data) []"

section \<open>Specification-side notions\<close>

text \<open>
  Three notions that the statements below compare the code with. \<open>paid_as e s\<close> says
  that the output entry \<open>s\<close> belongs to the input record \<open>e\<close>: name and job are
  copied and the salary is the integer part of the computed one.
  \<open>spec_subsidiary_record es\<close> is the per-subsidiary record as the specification
  words it: arithmetic mean, maximum and minimum of the salaries of \<open>es\<close>, with
  \<open>es\<close> attached. \<open>paid_subsidiary p q\<close> lifts \<open>paid_as\<close> to one subsidiary with
  its list of records: same name, and the entries belong to the records position by
  position.
\<close>

definition paid_as :: "raw_employee \<Rightarrow> salary_entry \<Rightarrow> bool" where
  "paid_as e s \<longleftrightarrow>
     raw_name e = Some (name s) \<and> raw_job e = Some (job s) \<and>
     monthly_salary s = py_int (computed_salary e)"

definition paid_subsidiary ::
  "string \<times> raw_employee list \<Rightarrow> string \<times> salary_entry list \<Rightarrow> bool" where
  "paid_subsidiary p q \<longleftrightarrow> fst q = fst p \<and> list_all2 paid_as (snd p) (snd q)"

definition spec_subsidiary_record :: "salary_entry list \<Rightarrow> subsidiary_statistics" where
  "spec_subsidiary_record es =
     \<lparr>average_salary = of_int (sum_list (map monthly_salary es)) / of_nat (length es),
      highest_salary = Max (monthly_salary ` set es),
      lowest_salary = Min (monthly_salary ` set es),
      employee_salary = es\<rparr>"

section \<open>Scenario data\<close>

text \<open>
  The roster of the worked scenarios: two employees at an hourly rate of 20 with 40
  contract hours, one working 35 hours and one 45, and a second subsidiary without
  employees; and the salary map the calculator makes of it.
\<close>

definition scenario_roster :: roster where
  "scenario_roster =
     [(''TechCorp'',
        [\<lparr>raw_name = Some ''Alice'', raw_job = Some ''Developer'', hourly_rate = Some 20,
          weekly_hours_worked = Some 35, contract_hours = Some 40, raw_monthly_salary = None\<rparr>,
         \<lparr>raw_name = Some ''Bob'', raw_job = Some ''Designer'', hourly_rate = Some 20,
          weekly_hours_worked = Some 45, contract_hours = Some 40, raw_monthly_salary = None\<rparr>]),
      (''DesignWorks'', [])]"

definition scenario_salaries :: salary_map where
  "scenario_salaries =
     [(''TechCorp'',
        [\<lparr>name = ''Alice'', job = ''Developer'', monthly_salary = 2800\<rparr>,
         \<lparr>name = ''Bob'', job = ''Designer'', monthly_salary = 3800\<rparr>]),
      (''DesignWorks'', [])]"

text \<open>
  A roster whose only record has none of the three wage keys, the salary map the
  calculator makes of it, and a salary map whose subsidiaries have no employees.
\<close>

definition intern_roster :: roster where
  "intern_roster =
     [(''TechCorp'',
        [\<lparr>raw_name = Some ''Dee'', raw_job = Some ''Intern'', hourly_rate = None,
          weekly_hours_worked = None, contract_hours = None, raw_monthly_salary = None\<rparr>])]"

definition intern_salaries :: salary_map where
  "intern_salaries = [(''TechCorp'', [\<lparr>name = ''Dee'', job = ''Intern'', monthly_salary = 0\<rparr>])]"

definition vacant_salaries :: salary_map where
  "vacant_salaries = [(''TechCorp'', []), (''DesignWorks'', [])]"

text \<open>
  A roster whose only record has a negative, fractional hourly rate, the salary map
  the calculator makes of it, and a roster whose only record lacks the key \<^verbatim>\<open>'name'\<close>.
\<close>

definition negative_rate_roster :: roster where
  "negative_rate_roster =
     [(''TechCorp'',
        [\<lparr>raw_name = Some ''Cy'', raw_job = Some ''Tester'', hourly_rate = Some (- (1 / 8)),
          weekly_hours_worked = Some 1, contract_hours = Some 1, raw_monthly_salary = None\<rparr>])]"

definition negative_rate_salaries :: salary_map where
  "negative_rate_salaries =
     [(''TechCorp'', [\<lparr>name = ''Cy'', job = ''Tester'', monthly_salary = 0\<rparr>])]"

definition nameless_roster :: roster where
  "nameless_roster =
     [(''TechCorp'',
        [\<lparr>raw_name = None, raw_job = Some ''Developer'', hourly_rate = Some 20,
          weekly_hours_worked = Some 35, contract_hours = Some 40, raw_monthly_salary = None\<rparr>])]"

section \<open>Facts about the Python primitives\<close>

lemma dict_get_simps:
  "dict_get None d = d" "dict_get (Some v) d = v"
  by (simp_all add: dict_get_def)

lemma foldl_add: "foldl (+) a xs = a + sum_list (xs::int list)"
  by (induction xs arbitrary: a) auto

lemma py_sum_eq: "py_sum xs = sum_list xs"
  by (simp add: py_sum_def foldl_add)

lemma foldl_max:
  "foldl (\<lambda>best item. if item > best then item else best) x xs = Max (set (x # xs))"
proof (induction xs arbitrary: x)
  case Nil
  then show ?case by simp
next
  case (Cons y ys)
  have "Max (set (x # y # ys)) = Max (set ((if y > x then y else x) # ys))"
    by (cases ys) (auto simp: max_def)
  with Cons show ?case by simp
qed

lemma foldl_min:
  "foldl (\<lambda>best item. if item < best then item else best) x xs = Min (set (x # xs))"
proof (induction xs arbitrary: x)
  case Nil
  then show ?case by simp
next
  case (Cons y ys)
  have "Min (set (x # y # ys)) = Min (set ((if y < x then y else x) # ys))"
    by (cases ys) (auto simp: min_def)
  with Cons show ?case by simp
qed

lemma py_max_eq: "xs \<noteq> [] \<Longrightarrow> py_max xs = Inr (Max (set xs))"
  unfolding py_max_def by (cases xs) (simp_all only: list.case foldl_max, simp)

lemma py_min_eq: "xs \<noteq> [] \<Longrightarrow> py_min xs = Inr (Min (set xs))"
  unfolding py_min_def by (cases xs) (simp_all only: list.case foldl_min, simp)

lemma salary_summary_eq:
  "xs \<noteq> [] \<Longrightarrow> salary_summary xs =
     Inr \<lparr>average_salary = of_int (sum_list xs) / of_int (int (length xs)),
          highest_salary = Max (set xs), lowest_salary = Min (set xs)\<rparr>"
  by (simp add: salary_summary_def py_truediv_def py_sum_eq py_max_eq py_min_eq)

lemma dict_lookup_distinct:
  "distinct (map fst d) \<Longrightarrow> (k, v) \<in> set d \<Longrightarrow> dict_lookup d k = Inr v"
  by (induction d) (auto simp: rev_image_eqI)

lemma dict_setitem_fresh: "k \<notin> fst ` set d \<Longrightarrow> dict_setitem d k v = d @ [(k, v)]"
  by (induction d) auto


section \<open>The loops of the aggregator\<close>

lemma all_salaries_eq:
  "distinct (map fst d) \<Longrightarrow> set d' \<subseteq> set d \<Longrightarrow>
   all_salaries d (map fst d') = Inr (concat (map (\<lambda>p. map monthly_salary (snd p)) d'))"
proof (induction d')
  case Nil
  then show ?case by simp
next
  case (Cons p d')
  obtain k es where p: "p = (k, es)" by (cases p)
  with Cons.prems have "dict_lookup d k = Inr es"
    by (simp add: dict_lookup_distinct)
  with Cons p show ?case by simp
qed


lemma statistics_loop_unfold:
  "dict_lookup d k = Inr es \<Longrightarrow> es \<noteq> [] \<Longrightarrow>
   statistics_loop d (k # ks) acc =
     (case salary_summary (map monthly_salary es) of
        Inl e \<Rightarrow> Inl e
      | Inr s \<Rightarrow> statistics_loop d ks
          (dict_setitem acc k
             \<lparr>average_salary = average_salary s, highest_salary = highest_salary s,
              lowest_salary = lowest_salary s, employee_salary = es\<rparr>))"
  by (simp add: Let_def)

lemma statistics_loop_nonempty:
  assumes "dict_lookup d k = Inr es" and "es \<noteq> []"
  shows "statistics_loop d (k # ks) acc =
           statistics_loop d ks (dict_setitem acc k (spec_subsidiary_record es))"
proof -
  from assms(2) have ne: "map monthly_salary es \<noteq> []" by simp
  have rec: "\<lparr>average_salary = rat_of_int (sum_list (map monthly_salary es)) / rat_of_int (int (length (map monthly_salary es))),
          highest_salary = Max (set (map monthly_salary es)), lowest_salary = Min (set (map monthly_salary es)),
          employee_salary = es\<rparr> = spec_subsidiary_record es"
    by (simp add: spec_subsidiary_record_def)
  show ?thesis
    unfolding statistics_loop_unfold[OF assms] salary_summary_eq[OF ne]
    by (simp only: sum.case salary_statistics.select_convs rec)
qed

lemma statistics_loop_empty:
  "dict_lookup d k = Inr [] \<Longrightarrow> statistics_loop d (k # ks) acc = statistics_loop d ks acc"
  by (simp add: Let_def)

declare statistics_loop.simps(2) [simp del]

lemma statistics_loop_eq:
  "distinct (map fst d) \<Longrightarrow> set d' \<subseteq> set d \<Longrightarrow> distinct (map fst d') \<Longrightarrow>
   fst ` set acc \<inter> fst ` set d' = {} \<Longrightarrow>
   statistics_loop d (map fst d') acc =
     Inr (acc @ map (\<lambda>p. (fst p, spec_subsidiary_record (snd p))) (filter (\<lambda>p. snd p \<noteq> []) d'))"
proof (induction d' arbitrary: acc)
  case Nil
  then show ?case by simp
next
  case (Cons p d')
  obtain k es where p: "p = (k, es)" by (cases p)
  from Cons.prems p have look: "dict_lookup d k = Inr es"
    by (simp add: dict_lookup_distinct)
  from Cons.prems p have fresh: "k \<notin> fst ` set acc" by auto
  from Cons.prems p have knew: "k \<notin> fst ` set d'" by auto
  from Cons.prems have sub: "set d' \<subseteq> set d" and dis: "distinct (map fst d')" by simp_all
  show ?case
  proof (cases "es = []")
    case True
    from Cons.prems have "fst ` set acc \<inter> fst ` set d' = {}" by auto
    from Cons.IH[OF Cons.prems(1) sub dis this] True p look show ?thesis
      by (simp add: statistics_loop_empty)
  next
    case False
    let ?acc = "acc @ [(k, spec_subsidiary_record es)]"
    from Cons.prems knew have "fst ` set ?acc \<inter> fst ` set d' = {}" by auto
    from Cons.IH[OF Cons.prems(1) sub dis this] False p fresh show ?thesis
      by (simp add: statistics_loop_nonempty[OF look False] dict_setitem_fresh)
  qed
qed


section \<open>The loops of the calculator\<close>

lemma employee_step_snd:
  "snd (employee_step e) = e\<lparr>raw_monthly_salary := Some (computed_salary e)\<rparr>"
  by (simp add: employee_step_def Let_def)

lemma employee_step_fst: "fst (employee_step e) = Inr s \<longleftrightarrow> paid_as e s"
  by (cases s; cases "raw_name e"; cases "raw_job e")
     (auto simp: employee_step_def Let_def dict_item_def paid_as_def)

lemma employee_step_Inl:
  "fst (employee_step e) = Inl err \<Longrightarrow> raw_name e = None \<or> raw_job e = None"
  by (cases "raw_name e"; cases "raw_job e")
     (auto simp: employee_step_def Let_def dict_item_def)

lemma paid_as_unique: "paid_as e s \<Longrightarrow> paid_as e s' \<Longrightarrow> s' = s"
  by (cases s; cases s') (simp add: paid_as_def)

lemma personnel_loop_Inl:
  "fst (employee_step e) = Inl err \<Longrightarrow>
   personnel_loop (e # es) acc = (Inl err, snd (employee_step e) # es)"
  by (cases "employee_step e") simp

lemma personnel_loop_Inr:
  "fst (employee_step e) = Inr s \<Longrightarrow>
   personnel_loop (e # es) acc =
     (fst (personnel_loop es (acc @ [s])),
      snd (employee_step e) # snd (personnel_loop es (acc @ [s])))"
  by (cases "employee_step e") (simp split: prod.splits)

declare personnel_loop.simps(2) [simp del]

lemma personnel_loop_fst:
  "fst (personnel_loop es acc) = Inr out \<longleftrightarrow>
     (\<exists>new. out = acc @ new \<and> list_all2 paid_as es new)"
proof (induction es arbitrary: acc)
  case Nil
  then show ?case by auto
next
  case (Cons e es)
  show ?case
  proof (cases "fst (employee_step e)")
    case (Inl err)
    then have "\<not> paid_as e s" for s
      using employee_step_fst[of e s] by simp
    with Inl show ?thesis by (simp add: personnel_loop_Inl list_all2_Cons1)
  next
    case (Inr s)
    then have s: "paid_as e s" using employee_step_fst[of e s] by simp
    have uniq: "paid_as e s' \<longleftrightarrow> s' = s" for s'
      using s paid_as_unique[OF s] by blast
    have "fst (personnel_loop (e # es) acc) = Inr out \<longleftrightarrow>
          fst (personnel_loop es (acc @ [s])) = Inr out"
      by (simp add: personnel_loop_Inr[OF Inr])
    also have "\<dots> \<longleftrightarrow> (\<exists>new. out = (acc @ [s]) @ new \<and> list_all2 paid_as es new)"
      by (rule Cons.IH)
    also have "\<dots> \<longleftrightarrow> (\<exists>new. out = acc @ new \<and> list_all2 paid_as (e # es) new)"
      by (simp add: list_all2_Cons1 uniq) blast
    finally show ?thesis .
  qed
qed

lemma personnel_loop_snd:
  "fst (personnel_loop es acc) = Inr out \<Longrightarrow>
   snd (personnel_loop es acc) =
     map (\<lambda>e. e\<lparr>raw_monthly_salary := Some (computed_salary e)\<rparr>) es"
proof (induction es arbitrary: acc)
  case Nil
  then show ?case by simp
next
  case (Cons e es)
  show ?case
  proof (cases "fst (employee_step e)")
    case (Inl err)
    with Cons.prems show ?thesis by (simp add: personnel_loop_Inl)
  next
    case (Inr s)
    with Cons.prems have "fst (personnel_loop es (acc @ [s])) = Inr out"
      by (simp add: personnel_loop_Inr)
    from Cons.IH[OF this] show ?thesis
      by (simp add: personnel_loop_Inr[OF Inr] employee_step_snd)
  qed
qed

lemma personnel_loop_frame:
  "map (\<lambda>e. e\<lparr>raw_monthly_salary := None\<rparr>) (snd (personnel_loop es acc)) =
   map (\<lambda>e. e\<lparr>raw_monthly_salary := None\<rparr>) es"
proof (induction es arbitrary: acc)
  case Nil
  then show ?case by simp
next
  case (Cons e es)
  show ?case
  proof (cases "fst (employee_step e)")
    case (Inl err)
    then show ?thesis by (simp add: personnel_loop_Inl employee_step_snd)
  next
    case (Inr s)
    with Cons.IH[of "acc @ [s]"] show ?thesis
      by (simp add: personnel_loop_Inr employee_step_snd)
  qed
qed




lemma personnel_loop_paid:
  "fst (personnel_loop es []) = Inr out \<longleftrightarrow> list_all2 paid_as es out"
  by (simp add: personnel_loop_fst)

lemma subsidiary_loop_Inl:
  "fst (personnel_loop pd []) = Inl err \<Longrightarrow>
   subsidiary_loop ((k, pd) # rest) acc = (Inl err, (k, snd (personnel_loop pd [])) # rest)"
  by (cases "personnel_loop pd []") simp

lemma subsidiary_loop_Inr:
  "fst (personnel_loop pd []) = Inr el \<Longrightarrow>
   subsidiary_loop ((k, pd) # rest) acc =
     (fst (subsidiary_loop rest (dict_setitem acc k el)),
      (k, snd (personnel_loop pd [])) # snd (subsidiary_loop rest (dict_setitem acc k el)))"
  by (cases "personnel_loop pd []") (simp split: prod.splits)

declare subsidiary_loop.simps(2) [simp del]

lemma subsidiary_loop_fst:
  "distinct (map fst roster) \<Longrightarrow> fst ` set acc \<inter> fst ` set roster = {} \<Longrightarrow>
   fst (subsidiary_loop roster acc) = Inr out \<longleftrightarrow>
     (\<exists>new. out = acc @ new \<and> list_all2 paid_subsidiary roster new)"
proof (induction roster arbitrary: acc)
  case Nil
  then show ?case by auto
next
  case (Cons p roster)
  obtain k pd where p: "p = (k, pd)" by (cases p)
  from Cons.prems p have fresh: "k \<notin> fst ` set acc" by auto
  from Cons.prems p have knew: "k \<notin> fst ` set roster" by auto
  from Cons.prems have dis: "distinct (map fst roster)" by simp
  show ?case
  proof (cases "fst (personnel_loop pd [])")
    case (Inl err)
    then have "\<not> list_all2 paid_as pd ss" for ss
      using personnel_loop_paid[of pd ss] by simp
    then have "\<not> paid_subsidiary p q" for q
      by (simp add: paid_subsidiary_def p)
    with Inl p show ?thesis
      by (simp add: subsidiary_loop_Inl list_all2_Cons1)
  next
    case (Inr el)
    have uniq: "paid_subsidiary p q \<longleftrightarrow> q = (k, el)" for q
      using personnel_loop_paid[of pd "snd q"] Inr
      by (cases q) (auto simp: paid_subsidiary_def p)
    let ?acc = "acc @ [(k, el)]"
    from Cons.prems knew have disj: "fst ` set ?acc \<inter> fst ` set roster = {}" by auto
    have "fst (subsidiary_loop (p # roster) acc) = Inr out \<longleftrightarrow>
          fst (subsidiary_loop roster ?acc) = Inr out"
      by (simp add: p subsidiary_loop_Inr[OF Inr] dict_setitem_fresh[OF fresh])
    also have "\<dots> \<longleftrightarrow> (\<exists>new. out = ?acc @ new \<and> list_all2 paid_subsidiary roster new)"
      by (rule Cons.IH[OF dis disj])
    also have "\<dots> \<longleftrightarrow> (\<exists>new. out = acc @ new \<and> list_all2 paid_subsidiary (p # roster) new)"
      by (simp add: list_all2_Cons1 uniq) blast
    finally show ?thesis .
  qed
qed

lemma subsidiary_loop_snd:
  "fst (subsidiary_loop roster acc) = Inr out \<Longrightarrow>
   snd (subsidiary_loop roster acc) =
     map (\<lambda>p. (fst p, map (\<lambda>e. e\<lparr>raw_monthly_salary := Some (computed_salary e)\<rparr>) (snd p)))
       roster"
proof (induction roster arbitrary: acc)
  case Nil
  then show ?case by simp
next
  case (Cons p roster)
  obtain k pd where p: "p = (k, pd)" by (cases p)
  show ?case
  proof (cases "fst (personnel_loop pd [])")
    case (Inl err)
    with Cons.prems p show ?thesis by (simp add: subsidiary_loop_Inl)
  next
    case (Inr el)
    with Cons.prems p have "fst (subsidiary_loop roster (dict_setitem acc k el)) = Inr out"
      by (simp add: subsidiary_loop_Inr)
    from Cons.IH[OF this] show ?thesis
      by (simp add: p subsidiary_loop_Inr[OF Inr] personnel_loop_snd[OF Inr])
  qed
qed

lemma subsidiary_loop_frame:
  "map (\<lambda>p. (fst p, map (\<lambda>e. e\<lparr>raw_monthly_salary := None\<rparr>) (snd p)))
     (snd (subsidiary_loop roster acc)) =
   map (\<lambda>p. (fst p, map (\<lambda>e. e\<lparr>raw_monthly_salary := None\<rparr>) (snd p))) roster"
proof (induction roster arbitrary: acc)
  case Nil
  then show ?case by simp
next
  case (Cons p roster)
  obtain k pd where p: "p = (k, pd)" by (cases p)
  show ?case
  proof (cases "fst (personnel_loop pd [])")
    case (Inl err)
    then show ?thesis by (simp add: p subsidiary_loop_Inl personnel_loop_frame)
  next
    case (Inr el)
    with Cons.IH[of "dict_setitem acc k el"] show ?thesis
      by (simp add: p subsidiary_loop_Inr personnel_loop_frame)
  qed
qed


section \<open>The three functions as a whole\<close>

lemmas run_calculator =
  calculate_monthly_salaries_def subsidiary_loop.simps personnel_loop.simps employee_step_def
  computed_salary_def dict_get_def dict_item_def py_int_def Let_def

lemma scenario_run:
  "calculate_monthly_salaries scenario_roster =
     (Inr scenario_salaries,
      [(''TechCorp'',
        [\<lparr>raw_name = Some ''Alice'', raw_job = Some ''Developer'', hourly_rate = Some 20,
          weekly_hours_worked = Some 35, contract_hours = Some 40,
          raw_monthly_salary = Some 2800\<rparr>,
         \<lparr>raw_name = Some ''Bob'', raw_job = Some ''Designer'', hourly_rate = Some 20,
          weekly_hours_worked = Some 45, contract_hours = Some 40,
          raw_monthly_salary = Some 3800\<rparr>]),
      (''DesignWorks'', [])])"
  by (simp add: scenario_roster_def scenario_salaries_def run_calculator)

lemma calculator_paid:
  "distinct (map fst roster) \<Longrightarrow>
   fst (calculate_monthly_salaries roster) = Inr out \<longleftrightarrow> list_all2 paid_subsidiary roster out"
  by (simp add: calculate_monthly_salaries_def subsidiary_loop_fst)

lemma paid_subsidiary_keys:
  "list_all2 paid_subsidiary roster out \<Longrightarrow> map fst out = map fst roster"
  by (induction roster out rule: list_all2_induct) (simp_all add: paid_subsidiary_def)

lemma calculator_lookup:
  assumes "distinct (map fst roster)" and "fst (calculate_monthly_salaries roster) = Inr out"
    and "(sub, staff) \<in> set roster"
  shows "\<exists>paid. dict_lookup out sub = Inr paid \<and> list_all2 paid_as staff paid"
proof -
  from assms(1,2) have all: "list_all2 paid_subsidiary roster out"
    by (simp add: calculator_paid)
  then have keys: "map fst out = map fst roster" by (rule paid_subsidiary_keys)
  from assms(3) obtain n where n: "n < length roster" "roster ! n = (sub, staff)"
    by (auto simp: in_set_conv_nth)
  from all n(1) have "paid_subsidiary (roster ! n) (out ! n)" and len: "n < length out"
    by (simp_all add: list_all2_conv_all_nth)
  with n(2) have q: "fst (out ! n) = sub" "list_all2 paid_as staff (snd (out ! n))"
    by (simp_all add: paid_subsidiary_def)
  from len have "out ! n \<in> set out" by simp
  with q(1) have "(sub, snd (out ! n)) \<in> set out"
    by (metis prod.collapse)
  moreover from keys assms(1) have "distinct (map fst out)" by simp
  ultimately have "dict_lookup out sub = Inr (snd (out ! n))"
    by (rule dict_lookup_distinct[rotated])
  with q(2) show ?thesis by blast
qed

lemma global_eq:
  assumes "distinct (map fst d)"
  shows "global_company_statistics d =
     (if concat (map (\<lambda>p. map monthly_salary (snd p)) d) = []
      then Inr \<lparr>average_salary = 0, highest_salary = 0, lowest_salary = 0\<rparr>
      else Inr \<lparr>average_salary =
                  of_int (sum_list (concat (map (\<lambda>p. map monthly_salary (snd p)) d))) /
                  of_nat (length (concat (map (\<lambda>p. map monthly_salary (snd p)) d))),
                highest_salary = Max (set (concat (map (\<lambda>p. map monthly_salary (snd p)) d))),
                lowest_salary = Min (set (concat (map (\<lambda>p. map monthly_salary (snd p)) d)))\<rparr>)"
proof -
  have all: "all_salaries d (map fst d) = Inr (concat (map (\<lambda>p. map monthly_salary (snd p)) d))"
    using assms by (simp add: all_salaries_eq)
  show ?thesis
  proof (cases "concat (map (\<lambda>p. map monthly_salary (snd p)) d) = []")
    case True
    then show ?thesis
      unfolding global_company_statistics_def Let_def all by (simp only: sum.case) simp
  next
    case False
    from salary_summary_eq[OF False] False show ?thesis
      unfolding global_company_statistics_def Let_def all by (simp only: sum.case) simp
  qed
qed

lemma subsidiary_eq:
  "distinct (map fst d) \<Longrightarrow>
   subsidiary_company_statistics d =
     Inr (map (\<lambda>p. (fst p, spec_subsidiary_record (snd p))) (filter (\<lambda>p. snd p \<noteq> []) d))"
  unfolding subsidiary_company_statistics_def
  using statistics_loop_eq[of d d "[]"] by simp



section \<open>Mean, maximum and minimum\<close>





lemma sum_list_zero: "(\<And>x. x \<in> set xs \<Longrightarrow> x = 0) \<Longrightarrow> sum_list xs = (0::int)"
  by (induction xs) auto

lemma all_zero_iff:
  assumes "xs \<noteq> []"
  shows "rat_of_int (sum_list xs) / of_nat (length xs) = 0 \<and> Max (set xs) = 0 \<and> Min (set xs) = 0
           \<longleftrightarrow> (\<forall>x\<in>set xs. x = 0)"
proof
  assume h: "rat_of_int (sum_list xs) / of_nat (length xs) = 0 \<and> Max (set xs) = 0 \<and> Min (set xs) = 0"
  show "\<forall>x\<in>set xs. x = 0"
  proof
    fix x assume x: "x \<in> set xs"
    then have "x \<le> Max (set xs)" and "Min (set xs) \<le> x" by simp_all
    with h show "x = 0" by simp
  qed
next
  assume z: "\<forall>x\<in>set xs. x = 0"
  then have "sum_list xs = 0" by (intro sum_list_zero) simp
  moreover from assms z have "set xs = {0}" by (cases xs) auto
  ultimately show "rat_of_int (sum_list xs) / of_nat (length xs) = 0 \<and> Max (set xs) = 0 \<and> Min (set xs) = 0"
    by simp
qed

lemma Max_concat:
  fixes xss :: "int list list"
  assumes "concat xss \<noteq> []"
  shows "Max (set (concat xss)) = Max ((\<lambda>xs. Max (set xs)) ` {xs \<in> set xss. xs \<noteq> []})"
proof (rule Max_eqI[symmetric])
  show "finite ((\<lambda>xs. Max (set xs)) ` {xs \<in> set xss. xs \<noteq> []})" by simp
next
  fix y assume "y \<in> (\<lambda>xs. Max (set xs)) ` {xs \<in> set xss. xs \<noteq> []}"
  then obtain xs where xs: "xs \<in> set xss" "xs \<noteq> []" "y = Max (set xs)" by auto
  then have "y \<in> set xs" by simp
  with xs(1) have "y \<in> set (concat xss)" by auto
  then show "y \<le> Max (set (concat xss))" by simp
next
  from assms have "Max (set (concat xss)) \<in> set (concat xss)" by (intro Max_in) simp_all
  then obtain xs where xs: "xs \<in> set xss" "Max (set (concat xss)) \<in> set xs" by auto
  then have ne: "xs \<noteq> []" by auto
  from xs(2) have "Max (set (concat xss)) \<le> Max (set xs)" by simp
  moreover have "Max (set xs) \<le> Max (set (concat xss))"
  proof -
    from ne have "Max (set xs) \<in> set xs" by (intro Max_in) simp_all
    with xs(1) have "Max (set xs) \<in> set (concat xss)" by auto
    then show ?thesis by simp
  qed
  ultimately have "Max (set (concat xss)) = Max (set xs)" by simp
  with xs(1) ne show "Max (set (concat xss)) \<in> (\<lambda>xs. Max (set xs)) ` {xs \<in> set xss. xs \<noteq> []}"
    by (metis (mono_tags, lifting) image_eqI mem_Collect_eq)
qed

lemma Min_concat:
  fixes xss :: "int list list"
  assumes "concat xss \<noteq> []"
  shows "Min (set (concat xss)) = Min ((\<lambda>xs. Min (set xs)) ` {xs \<in> set xss. xs \<noteq> []})"
proof (rule Min_eqI[symmetric])
  show "finite ((\<lambda>xs. Min (set xs)) ` {xs \<in> set xss. xs \<noteq> []})" by simp
next
  fix y assume "y \<in> (\<lambda>xs. Min (set xs)) ` {xs \<in> set xss. xs \<noteq> []}"
  then obtain xs where xs: "xs \<in> set xss" "xs \<noteq> []" "y = Min (set xs)" by auto
  then have "y \<in> set xs" by simp
  with xs(1) have "y \<in> set (concat xss)" by auto
  then show "Min (set (concat xss)) \<le> y" by simp
next
  from assms have "Min (set (concat xss)) \<in> set (concat xss)" by (intro Min_in) simp_all
  then obtain xs where xs: "xs \<in> set xss" "Min (set (concat xss)) \<in> set xs" by auto
  then have ne: "xs \<noteq> []" by auto
  from xs(2) have "Min (set xs) \<le> Min (set (concat xss))" by simp
  moreover have "Min (set (concat xss)) \<le> Min (set xs)"
  proof -
    from ne have "Min (set xs) \<in> set xs" by (intro Min_in) simp_all
    with xs(1) have "Min (set xs) \<in> set (concat xss)" by auto
    then show ?thesis by simp
  qed
  ultimately have "Min (set (concat xss)) = Min (set xs)" by simp
  with xs(1) ne show "Min (set (concat xss)) \<in> (\<lambda>xs. Min (set xs)) ` {xs \<in> set xss. xs \<noteq> []}"
    by (metis (mono_tags, lifting) image_eqI mem_Collect_eq)
qed

lemma highest_of_records:
  "(\<lambda>q. highest_salary (snd q)) `
     set (map (\<lambda>p. (fst p, spec_subsidiary_record (snd p))) (filter (\<lambda>p. snd p \<noteq> []) d)) =
   (\<lambda>xs. Max (set xs)) ` {xs \<in> set (map (\<lambda>p. map monthly_salary (snd p)) d). xs \<noteq> []}"
  by (force simp: spec_subsidiary_record_def image_iff)

lemma lowest_of_records:
  "(\<lambda>q. lowest_salary (snd q)) `
     set (map (\<lambda>p. (fst p, spec_subsidiary_record (snd p))) (filter (\<lambda>p. snd p \<noteq> []) d)) =
   (\<lambda>xs. Min (set xs)) ` {xs \<in> set (map (\<lambda>p. map monthly_salary (snd p)) d). xs \<noteq> []}"
  by (force simp: spec_subsidiary_record_def image_iff)

section \<open>Facts about the calculator and its scenarios\<close>

lemma calculator_entry:
  assumes "distinct (map fst roster)" and "fst (calculate_monthly_salaries roster) = Inr out"
    and "(sub, staff) \<in> set roster" and "i < length staff"
  shows "\<exists>paid. dict_lookup out sub = Inr paid \<and> length paid = length staff \<and>
           monthly_salary (paid ! i) = py_int (computed_salary (staff ! i))"
proof -
  from calculator_lookup[OF assms(1-3)] obtain paid
    where paid: "dict_lookup out sub = Inr paid" "list_all2 paid_as staff paid" by blast
  from paid(2) have len: "length paid = length staff" by (simp add: list_all2_lengthD)
  from paid(2) assms(4) have "paid_as (staff ! i) (paid ! i)" by (rule list_all2_nthD)
  then have "monthly_salary (paid ! i) = py_int (computed_salary (staff ! i))"
    by (simp add: paid_as_def)
  with paid(1) len show ?thesis by blast
qed


lemma py_int_magnitude:
  "\<bar>rat_of_int (py_int x)\<bar> \<le> \<bar>x\<bar> \<and> \<bar>x\<bar> < \<bar>rat_of_int (py_int x)\<bar> + 1"
proof (cases "0 \<le> x")
  case True
  then have "0 \<le> \<lfloor>x\<rfloor>" by simp
  with True show ?thesis by (simp add: py_int_def) linarith
next
  case False
  then have "0 \<le> \<lfloor>- x\<rfloor>" by simp
  with False show ?thesis by (simp add: py_int_def) linarith
qed

lemma py_int_sign: "(0 \<le> x \<longrightarrow> 0 \<le> py_int x) \<and> (x \<le> 0 \<longrightarrow> py_int x \<le> 0)"
  by (auto simp: py_int_def)


lemma negative_rate_run:
  "calculate_monthly_salaries negative_rate_roster =
     (Inr [(''TechCorp'', [\<lparr>name = ''Cy'', job = ''Tester'', monthly_salary = 0\<rparr>])],
      [(''TechCorp'',
        [\<lparr>raw_name = Some ''Cy'', raw_job = Some ''Tester'', hourly_rate = Some (- (1 / 8)),
          weekly_hours_worked = Some 1, contract_hours = Some 1,
          raw_monthly_salary = Some (- (1 / 2))\<rparr>])])"
  by (simp add: negative_rate_roster_def run_calculator floor_eq_iff)

lemma nameless_run:
  "fst (calculate_monthly_salaries nameless_roster) = Inl (KeyError ''name'')"
  by (simp add: nameless_roster_def run_calculator)

lemma intern_run:
  "fst (calculate_monthly_salaries intern_roster) = Inr intern_salaries"
  by (simp add: intern_roster_def intern_salaries_def run_calculator)

lemma paid_filter_keys:
  "list_all2 paid_subsidiary roster out \<Longrightarrow>
   map fst (filter (\<lambda>q. snd q \<noteq> []) out) = map fst (filter (\<lambda>p. snd p \<noteq> []) roster)"
proof (induction roster out rule: list_all2_induct)
  case Nil
  then show ?case by simp
next
  case (Cons p roster q out)
  from Cons.hyps(1) have "list_all2 paid_as (snd p) (snd q)" and "fst q = fst p"
    by (simp_all add: paid_subsidiary_def)
  then have len: "length (snd q) = length (snd p)" and key: "fst q = fst p"
    by (simp_all add: list_all2_lengthD)
  from len have "snd q = [] \<longleftrightarrow> snd p = []"
    by (metis length_0_conv)
  with key Cons.IH show ?case by simp
qed

section \<open>The claims about the aggregator\<close>





text \<open>
  C4. When no subsidiary of the salary map has an employee (the map may be empty),
  \<^verbatim>\<open>global_company_statistics\<close> returns the record of three zeros and raises nothing.
  On every salary map \<^verbatim>\<open>subsidiary_company_statistics\<close> returns a mapping whose keys
  are exactly the subsidiaries with at least one employee: a subsidiary whose list
  is empty is left out.
\<close>

theorem C4_empty_input:
  assumes "distinct (map fst salary_data)"
  shows "((\<forall>p\<in>set salary_data. snd p = []) \<longrightarrow>
            global_company_statistics salary_data =
              Inr \<lparr>average_salary = 0, highest_salary = 0, lowest_salary = 0\<rparr>) \<and>
         (\<exists>st. subsidiary_company_statistics salary_data = Inr st \<and>
            (\<forall>p\<in>set salary_data. fst p \<in> fst ` set st \<longleftrightarrow> snd p \<noteq> []))"
proof
  show "(\<forall>p\<in>set salary_data. snd p = []) \<longrightarrow>
      global_company_statistics salary_data =
        Inr \<lparr>average_salary = 0, highest_salary = 0, lowest_salary = 0\<rparr>"
    using assms by (simp add: global_eq)
next
  have "fst p \<in> fst ` {q \<in> set salary_data. snd q \<noteq> []} \<longleftrightarrow> snd p \<noteq> []"
    if "p \<in> set salary_data" for p
  proof
    assume "fst p \<in> fst ` {q \<in> set salary_data. snd q \<noteq> []}"
    then obtain q where q: "q \<in> set salary_data" "snd q \<noteq> []" "fst q = fst p" by auto
    from assms that q(1,3) have "q = p"
      by (metis distinct_map inj_onD)
    with q(2) show "snd p \<noteq> []" by simp
  next
    assume "snd p \<noteq> []"
    with that show "fst p \<in> fst ` {q \<in> set salary_data. snd q \<noteq> []}" by auto
  qed
  with assms show "\<exists>st. subsidiary_company_statistics salary_data = Inr st \<and>
      (\<forall>p\<in>set salary_data. fst p \<in> fst ` set st \<longleftrightarrow> snd p \<noteq> [])"
    by (simp add: subsidiary_eq image_image)
qed

theorem C4_empty_input_witness:
  "global_company_statistics vacant_salaries =
     Inr \<lparr>average_salary = 0, highest_salary = 0, lowest_salary = 0\<rparr> \<and>
   (\<exists>st. subsidiary_company_statistics vacant_salaries = Inr st \<and>
      ''TechCorp'' \<notin> fst ` set st \<and> ''DesignWorks'' \<notin> fst ` set st)"
proof -
  have d: "distinct (map fst vacant_salaries)"
    by (simp add: vacant_salaries_def)
  from C4_empty_input[OF d] show ?thesis
    by (simp add: vacant_salaries_def)
qed

text \<open>
  C9, as amended. The three values of a statistics record are all 0 exactly when
  every salary of the underlying set is 0, which includes the empty set: a
  non-empty set of salaries that are all 0 gives three zeros as well. This holds for
  the record of \<^verbatim>\<open>global_company_statistics\<close> and for every record of
  \<^verbatim>\<open>subsidiary_company_statistics\<close>.
\<close>

theorem C9_all_zero_iff_salaries_zero:
  assumes "distinct (map fst salary_data)"
  shows "(\<exists>g. global_company_statistics salary_data = Inr g \<and>
            (average_salary g = 0 \<and> highest_salary g = 0 \<and> lowest_salary g = 0 \<longleftrightarrow>
             (\<forall>p\<in>set salary_data. \<forall>e\<in>set (snd p). monthly_salary e = 0))) \<and>
         (\<exists>st. subsidiary_company_statistics salary_data = Inr st \<and>
            (\<forall>q\<in>set st.
               average_salary (snd q) = 0 \<and> highest_salary (snd q) = 0 \<and>
               lowest_salary (snd q) = 0 \<longleftrightarrow>
               (\<forall>e\<in>set (employee_salary (snd q)). monthly_salary e = 0)))"
proof
  let ?all = "concat (map (\<lambda>p. map monthly_salary (snd p)) salary_data)"
  have members: "(\<forall>x\<in>set ?all. x = 0) \<longleftrightarrow>
      (\<forall>p\<in>set salary_data. \<forall>e\<in>set (snd p). monthly_salary e = 0)"
    by auto
  show "\<exists>g. global_company_statistics salary_data = Inr g \<and>
      (average_salary g = 0 \<and> highest_salary g = 0 \<and> lowest_salary g = 0 \<longleftrightarrow>
       (\<forall>p\<in>set salary_data. \<forall>e\<in>set (snd p). monthly_salary e = 0))"
  proof (cases "?all = []")
    case True
    then have "\<forall>x\<in>set ?all. x = 0" by (simp only: list.set ball_empty)
    then have "\<forall>p\<in>set salary_data. \<forall>e\<in>set (snd p). monthly_salary e = 0"
      by (simp only: members)
    moreover have "global_company_statistics salary_data =
        Inr \<lparr>average_salary = 0, highest_salary = 0, lowest_salary = 0\<rparr>"
      unfolding global_eq[OF assms] using True by simp
    ultimately show ?thesis by simp
  next
    case False
    let ?g = "\<lparr>average_salary = of_int (sum_list ?all) / of_nat (length ?all),
               highest_salary = Max (set ?all), lowest_salary = Min (set ?all)\<rparr>"
    have "global_company_statistics salary_data = Inr ?g"
      unfolding global_eq[OF assms] using False by (simp only: if_False)
    moreover have "average_salary ?g = 0 \<and> highest_salary ?g = 0 \<and> lowest_salary ?g = 0 \<longleftrightarrow>
        (\<forall>p\<in>set salary_data. \<forall>e\<in>set (snd p). monthly_salary e = 0)"
      using all_zero_iff[OF False] by (simp only: salary_statistics.select_convs members)
    ultimately show ?thesis by blast
  qed
next
  have "average_salary (spec_subsidiary_record es) = 0 \<and>
        highest_salary (spec_subsidiary_record es) = 0 \<and>
        lowest_salary (spec_subsidiary_record es) = 0 \<longleftrightarrow>
        (\<forall>e\<in>set (employee_salary (spec_subsidiary_record es)). monthly_salary e = 0)"
    if "es \<noteq> []" for es
  proof -
    from that have ne: "map monthly_salary es \<noteq> []" by simp
    from all_zero_iff[OF ne] show ?thesis
      by (simp add: spec_subsidiary_record_def)
  qed
  with assms show "\<exists>st. subsidiary_company_statistics salary_data = Inr st \<and>
      (\<forall>q\<in>set st.
         average_salary (snd q) = 0 \<and> highest_salary (snd q) = 0 \<and>
         lowest_salary (snd q) = 0 \<longleftrightarrow>
         (\<forall>e\<in>set (employee_salary (snd q)). monthly_salary e = 0))"
    by (auto simp: subsidiary_eq)
qed

theorem C9_all_zero_iff_salaries_zero_witness:
  "\<exists>g. global_company_statistics scenario_salaries = Inr g \<and>
       \<not> (average_salary g = 0 \<and> highest_salary g = 0 \<and> lowest_salary g = 0)"
proof -
  have d: "distinct (map fst scenario_salaries)"
    by (simp add: scenario_salaries_def)
  have "\<not> (\<forall>p\<in>set scenario_salaries. \<forall>e\<in>set (snd p). monthly_salary e = 0)"
    by (simp add: scenario_salaries_def)
  with C9_all_zero_iff_salaries_zero[OF d] show ?thesis by blast
qed

text \<open>
  The claim as stated fails: an employee without wage data is paid 0, and the
  statistics of this one-employee company are three zeros over a non-empty set.
\<close>

theorem C9_zero_salary_counterexample:
  "fst (calculate_monthly_salaries intern_roster) = Inr intern_salaries \<and>
   global_company_statistics intern_salaries =
     Inr \<lparr>average_salary = 0, highest_salary = 0, lowest_salary = 0\<rparr> \<and>
   all_salaries intern_salaries (map fst intern_salaries) = Inr [0]"
  by (simp add: intern_roster_def intern_salaries_def run_calculator global_eq)

text \<open>
  C10. On a salary map with at least one employee, the highest salary of the global
  record is the maximum of the highest salaries of the per-subsidiary records, and
  its lowest salary is the minimum of their lowest salaries.
\<close>

theorem C10_extremes_consistent:
  assumes "distinct (map fst salary_data)"
    and "concat (map (\<lambda>p. map monthly_salary (snd p)) salary_data) \<noteq> []"
  shows "\<exists>g st. global_company_statistics salary_data = Inr g \<and>
           subsidiary_company_statistics salary_data = Inr st \<and> st \<noteq> [] \<and>
           highest_salary g = Max ((\<lambda>q. highest_salary (snd q)) ` set st) \<and>
           lowest_salary g = Min ((\<lambda>q. lowest_salary (snd q)) ` set st)"
proof -
  let ?lists = "map (\<lambda>p. map monthly_salary (snd p)) salary_data"
  let ?g = "\<lparr>average_salary = of_int (sum_list (concat ?lists)) / of_nat (length (concat ?lists)),
             highest_salary = Max (set (concat ?lists)),
             lowest_salary = Min (set (concat ?lists))\<rparr>"
  let ?st = "map (\<lambda>p. (fst p, spec_subsidiary_record (snd p)))
               (filter (\<lambda>p. snd p \<noteq> []) salary_data)"
  have g: "global_company_statistics salary_data = Inr ?g"
    unfolding global_eq[OF assms(1)] using assms(2) by (simp only: if_False)
  have st: "subsidiary_company_statistics salary_data = Inr ?st"
    by (rule subsidiary_eq[OF assms(1)])
  from assms(2) obtain p where "p \<in> set salary_data" and "snd p \<noteq> []" by auto
  then have "filter (\<lambda>p. snd p \<noteq> []) salary_data \<noteq> []"
    by (auto simp: filter_empty_conv)
  then have ne: "?st \<noteq> []" by simp
  have hi: "highest_salary ?g = Max ((\<lambda>q. highest_salary (snd q)) ` set ?st)"
    unfolding highest_of_records using Max_concat[OF assms(2)]
    by (simp only: salary_statistics.select_convs)
  have lo: "lowest_salary ?g = Min ((\<lambda>q. lowest_salary (snd q)) ` set ?st)"
    unfolding lowest_of_records using Min_concat[OF assms(2)]
    by (simp only: salary_statistics.select_convs)
  from g st ne hi lo show ?thesis by blast
qed

theorem C10_extremes_consistent_witness:
  "\<exists>g st. global_company_statistics scenario_salaries = Inr g \<and>
     subsidiary_company_statistics scenario_salaries = Inr st \<and> st \<noteq> [] \<and>
     highest_salary g = Max ((\<lambda>q. highest_salary (snd q)) ` set st) \<and>
     lowest_salary g = Min ((\<lambda>q. lowest_salary (snd q)) ` set st)"
proof -
  have d: "distinct (map fst scenario_salaries)"
    by (simp add: scenario_salaries_def)
  have n: "concat (map (\<lambda>p. map monthly_salary (snd p)) scenario_salaries) \<noteq> []"
    by (simp add: scenario_salaries_def)
  show ?thesis by (rule C10_extremes_consistent[OF d n])
qed

section \<open>The claims about the calculator\<close>




text \<open>
  C5. The monthly salary in the output is the computed value with its fractional
  part dropped towards zero: its magnitude is at most the magnitude of the computed
  value and less than 1 below it, and it has the sign of the computed value; so a
  negative computed value is rounded up, not down.
\<close>

theorem C5_truncation_toward_zero:
  assumes "distinct (map fst roster)"
    and "fst (calculate_monthly_salaries roster) = Inr out"
    and "(sub, staff) \<in> set roster" and "i < length staff"
    and "v = computed_salary (staff ! i)"
  shows "\<exists>paid. dict_lookup out sub = Inr paid \<and> length paid = length staff \<and>
           \<bar>of_int (monthly_salary (paid ! i))\<bar> \<le> \<bar>v\<bar> \<and>
           \<bar>v\<bar> < \<bar>of_int (monthly_salary (paid ! i))\<bar> + 1 \<and>
           (0 \<le> v \<longrightarrow> 0 \<le> monthly_salary (paid ! i)) \<and>
           (v \<le> 0 \<longrightarrow> monthly_salary (paid ! i) \<le> 0)"
proof -
  from calculator_entry[OF assms(1-4)] obtain paid
    where paid: "dict_lookup out sub = Inr paid" "length paid = length staff"
      "monthly_salary (paid ! i) = py_int v"
    unfolding assms(5) by blast
  from py_int_magnitude[of v] py_int_sign[of v] paid show ?thesis
    by (intro exI[of _ paid]) simp
qed

theorem C5_truncation_toward_zero_witness:
  "fst (calculate_monthly_salaries negative_rate_roster) = Inr negative_rate_salaries \<and>
   computed_salary (snd (negative_rate_roster ! 0) ! 0) = - (1 / 2) \<and>
   (\<exists>paid. dict_lookup negative_rate_salaries ''TechCorp'' = Inr paid \<and>
      length paid = 1 \<and> monthly_salary (paid ! 0) = 0)"
proof -
  let ?staff = "snd (negative_rate_roster ! 0)"
  have d: "distinct (map fst negative_rate_roster)" by (simp add: negative_rate_roster_def)
  have r: "fst (calculate_monthly_salaries negative_rate_roster) = Inr negative_rate_salaries"
    by (simp add: negative_rate_run negative_rate_salaries_def)
  have s: "(''TechCorp'', ?staff) \<in> set negative_rate_roster"
    by (simp add: negative_rate_roster_def)
  have i: "0 < length ?staff" by (simp add: negative_rate_roster_def)
  have v: "- (1 / 2) = computed_salary (?staff ! 0)"
    by (simp add: negative_rate_roster_def computed_salary_def dict_get_def)
  from C5_truncation_toward_zero[OF d r s i v] v r show ?thesis
    by (auto simp: negative_rate_roster_def)
qed

text \<open>
  C6. When \<^verbatim>\<open>calculate_monthly_salaries\<close> returns on a roster, its output has the
  subsidiaries of the roster in the order of the roster, and under each subsidiary
  one salary entry per employee record, the \<open>j\<close>-th entry made from the \<open>j\<close>-th record.
  \<^verbatim>\<open>subsidiary_company_statistics\<close> applied to this output returns a mapping whose
  keys are the subsidiaries that have employees, again in the order of the roster.
\<close>

theorem C6_order_preserved:
  assumes "distinct (map fst roster)"
    and "fst (calculate_monthly_salaries roster) = Inr out"
  shows "map fst out = map fst roster \<and>
         list_all2
           (\<lambda>p q. length (snd q) = length (snd p) \<and>
              (\<forall>j<length (snd p). paid_as (snd p ! j) (snd q ! j)))
           roster out \<and>
         (\<exists>st. subsidiary_company_statistics out = Inr st \<and>
            map fst st = map fst (filter (\<lambda>p. snd p \<noteq> []) roster))"
proof -
  from assms have all: "list_all2 paid_subsidiary roster out"
    by (simp add: calculator_paid)
  then have keys: "map fst out = map fst roster" by (rule paid_subsidiary_keys)
  have "list_all2
          (\<lambda>p q. length (snd q) = length (snd p) \<and>
             (\<forall>j<length (snd p). paid_as (snd p ! j) (snd q ! j)))
          roster out"
    using all
    by (rule list_all2_mono) (auto simp: paid_subsidiary_def list_all2_conv_all_nth)
  moreover from keys assms(1) have "distinct (map fst out)" by simp
  then have "subsidiary_company_statistics out =
      Inr (map (\<lambda>p. (fst p, spec_subsidiary_record (snd p))) (filter (\<lambda>p. snd p \<noteq> []) out))"
    by (rule subsidiary_eq)
  moreover have "map fst (map (\<lambda>p. (fst p, spec_subsidiary_record (snd p)))
        (filter (\<lambda>p. snd p \<noteq> []) out)) = map fst (filter (\<lambda>p. snd p \<noteq> []) roster)"
    using paid_filter_keys[OF all] by (simp add: comp_def)
  ultimately show ?thesis using keys by blast
qed

theorem C6_order_preserved_witness:
  "map fst scenario_salaries = [''TechCorp'', ''DesignWorks''] \<and>
   (\<exists>st. subsidiary_company_statistics scenario_salaries = Inr st \<and>
      map fst st = [''TechCorp''])"
proof -
  have d: "distinct (map fst scenario_roster)" by (simp add: scenario_roster_def)
  have r: "fst (calculate_monthly_salaries scenario_roster) = Inr scenario_salaries"
    by (simp add: scenario_run)
  from C6_order_preserved[OF d r] show ?thesis
    by (simp add: scenario_roster_def)
qed

text \<open>
  C7, as amended. \<^verbatim>\<open>calculate_monthly_salaries\<close> changes its input in one way only:
  it writes the key \<^verbatim>\<open>'monthly_salary'\<close> of employee records. After every call the
  roster has the same subsidiaries in the same order with the same records, equal to
  what they were in every other key; and when the call returns, each record holds
  under \<^verbatim>\<open>'monthly_salary'\<close> the salary computed for it, before truncation.
\<close>

theorem C7_only_monthly_salary_written:
  "map (\<lambda>p. (fst p, map (\<lambda>e. e\<lparr>raw_monthly_salary := None\<rparr>) (snd p)))
     (snd (calculate_monthly_salaries roster)) =
   map (\<lambda>p. (fst p, map (\<lambda>e. e\<lparr>raw_monthly_salary := None\<rparr>) (snd p))) roster \<and>
   (\<forall>out. fst (calculate_monthly_salaries roster) = Inr out \<longrightarrow>
      snd (calculate_monthly_salaries roster) =
        map (\<lambda>p. (fst p,
               map (\<lambda>e. e\<lparr>raw_monthly_salary := Some (computed_salary e)\<rparr>) (snd p)))
          roster)"
  unfolding calculate_monthly_salaries_def
  by (simp add: subsidiary_loop_frame subsidiary_loop_snd)

theorem C7_only_monthly_salary_written_witness:
  "snd (calculate_monthly_salaries scenario_roster) =
     [(''TechCorp'',
        [\<lparr>raw_name = Some ''Alice'', raw_job = Some ''Developer'', hourly_rate = Some 20,
          weekly_hours_worked = Some 35, contract_hours = Some 40,
          raw_monthly_salary = Some 2800\<rparr>,
         \<lparr>raw_name = Some ''Bob'', raw_job = Some ''Designer'', hourly_rate = Some 20,
          weekly_hours_worked = Some 45, contract_hours = Some 40,
          raw_monthly_salary = Some 3800\<rparr>]),
      (''DesignWorks'', [])]"
proof -
  have r: "fst (calculate_monthly_salaries scenario_roster) = Inr scenario_salaries"
    by (simp add: scenario_run)
  from C7_only_monthly_salary_written[of scenario_roster] r
  have "snd (calculate_monthly_salaries scenario_roster) =
      map (\<lambda>p. (fst p,
             map (\<lambda>e. e\<lparr>raw_monthly_salary := Some (computed_salary e)\<rparr>) (snd p)))
        scenario_roster"
    by blast
  then show ?thesis
    by (simp add: scenario_roster_def computed_salary_def dict_get_def)
qed

text \<open>
  The claim as stated fails: after the call on the scenario roster, the roster is
  not what it was, its records have gained the key \<^verbatim>\<open>'monthly_salary'\<close>.
\<close>

theorem C7_input_mutated_counterexample:
  "snd (calculate_monthly_salaries scenario_roster) \<noteq> scenario_roster"
  unfolding scenario_run snd_conv by (simp add: scenario_roster_def)




end
